theory Spec2Isabelle
  imports Complex_Main
begin

section \<open>Python values\<close>

text \<open>
  The values that \<^verbatim>\<open>response.json()\<close> can return and that the module keeps in
  \<^verbatim>\<open>current_config\<close>: \<^verbatim>\<open>None\<close>, booleans, unbounded integers, floats, strings,
  lists and dicts. A float is carried by its exact value (every finite double is a
  rational) or is one of the three non-finite values the \<^verbatim>\<open>json\<close> module produces.
  A string is a list of characters, one \<open>char\<close> standing for one code point.
  A dict is the list of its items in insertion order.
\<close>

datatype pyfloat = Finite rat | PosInf | NegInf | NaN

datatype pyval =
    PyNone
  | PyBool bool
  | PyInt int
  | PyFloat pyfloat
  | PyStr string
  | PyList "pyval list"
  | PyDict "(pyval \<times> pyval) list"

type_synonym dict = "(pyval \<times> pyval) list"

text \<open>
  Two keys address the same dict slot when they have the same hash and compare equal:
  \<^verbatim>\<open>True\<close>, \<^verbatim>\<open>1\<close> and \<^verbatim>\<open>1.0\<close> are one key, a string is only equal to the same string.
  Lists and dicts are unhashable (\<open>None\<close>): using one as a key raises \<^verbatim>\<open>TypeError\<close>.
\<close>

datatype hkey = HNone | HNum pyfloat | HStr string

fun hashable_key :: "pyval \<Rightarrow> hkey option" where
  "hashable_key PyNone = Some HNone"
| "hashable_key (PyBool b) = Some (HNum (Finite (if b then 1 else 0)))"
| "hashable_key (PyInt i) = Some (HNum (Finite (of_int i)))"
| "hashable_key (PyFloat f) = Some (HNum f)"
| "hashable_key (PyStr s) = Some (HStr s)"
| "hashable_key (PyList xs) = None"
| "hashable_key (PyDict d) = None"

text \<open>\<^verbatim>\<open>bool(x)\<close>, the test of \<^verbatim>\<open>if x:\<close> and \<^verbatim>\<open>not x\<close>.\<close>

fun truthy :: "pyval \<Rightarrow> bool" where
  "truthy PyNone = False"
| "truthy (PyBool b) = b"
| "truthy (PyInt i) = (i \<noteq> 0)"
| "truthy (PyFloat f) = (f \<noteq> Finite 0)"
| "truthy (PyStr s) = (s \<noteq> [])"
| "truthy (PyList xs) = (xs \<noteq> [])"
| "truthy (PyDict d) = (d \<noteq> [])"

subsection \<open>Dict operations\<close>

text \<open>Lookup of a key: the value of the first (and, in a dict, only) item with that key.\<close>

fun dict_find :: "dict \<Rightarrow> pyval \<Rightarrow> pyval option" where
  "dict_find [] k = None"
| "dict_find ((k', v) # d) k =
     (if hashable_key k' = hashable_key k then Some v else dict_find d k)"

text \<open>\<^verbatim>\<open>d.get(key, default)\<close>.\<close>

definition dict_get :: "dict \<Rightarrow> pyval \<Rightarrow> pyval \<Rightarrow> pyval" where
  "dict_get d k dflt = (case dict_find d k of None \<Rightarrow> dflt | Some v \<Rightarrow> v)"

text \<open>
  \<^verbatim>\<open>d[k] = v\<close> for a hashable key: an existing item keeps its place and its key
  object and takes the new value, a new key is appended.
\<close>

fun dict_setitem :: "dict \<Rightarrow> pyval \<Rightarrow> pyval \<Rightarrow> dict" where
  "dict_setitem [] k v = [(k, v)]"
| "dict_setitem ((k', v') # d) k v =
     (if hashable_key k' = hashable_key k then (k', v) # d
      else (k', v') # dict_setitem d k v)"

text \<open>\<^verbatim>\<open>d.copy()\<close>: a shallow copy; values are never mutated in place here.\<close>

definition dict_copy :: "dict \<Rightarrow> dict" where
  "dict_copy d = d"

subsection \<open>Exceptions\<close>

text \<open>
  The exception classes that occur, with their method resolution order.
  \<^verbatim>\<open>requests.exceptions.JSONDecodeError\<close>, into which \<^verbatim>\<open>response.json()\<close> turns the
  parser's \<^verbatim>\<open>json.JSONDecodeError\<close>, derives from \<^verbatim>\<open>InvalidJSONError\<close> (a
  \<^verbatim>\<open>RequestException\<close>) and from \<^verbatim>\<open>json.JSONDecodeError\<close> (a \<^verbatim>\<open>ValueError\<close>), as in
  requests 2.27 and later. \<^verbatim>\<open>RecursionError\<close> and a plain \<^verbatim>\<open>ValueError\<close> are what the
  parser raises at its own limits; neither is a \<^verbatim>\<open>RequestException\<close>.
\<close>

datatype exc_class =
    Exception
  | TypeError
  | ValueError
  | RuntimeError
  | RecursionError
  | RequestException
  | ConnectionError
  | Timeout
  | InvalidJSONError
  | JSONDecodeError

fun mro :: "exc_class \<Rightarrow> exc_class list" where
  "mro Exception = [Exception]"
| "mro TypeError = [TypeError, Exception]"
| "mro ValueError = [ValueError, Exception]"
| "mro RuntimeError = [RuntimeError, Exception]"
| "mro RecursionError = [RecursionError, RuntimeError, Exception]"
| "mro RequestException = [RequestException, Exception]"
| "mro ConnectionError = [ConnectionError, RequestException, Exception]"
| "mro Timeout = [Timeout, RequestException, Exception]"
| "mro InvalidJSONError = [InvalidJSONError, RequestException, Exception]"
| "mro JSONDecodeError =
     [JSONDecodeError, InvalidJSONError, RequestException, ValueError, Exception]"

definition issubclass :: "exc_class \<Rightarrow> exc_class \<Rightarrow> bool" where
  "issubclass c d = List.member (mro c) d"

subsection \<open>\<^verbatim>\<open>dict.update\<close>\<close>

text \<open>
  \<^verbatim>\<open>d.update(arg)\<close> merges a dict item by item. Any other argument is iterated as a
  sequence of key/value pairs: each element is turned into a sequence (a list as it is,
  a string into its characters, a dict into its keys), must have length two, and its
  first component must be hashable. The first element that fails raises, and the items
  set before it stay in the dict.
\<close>

fun merge_items :: "dict \<Rightarrow> (pyval \<times> pyval) list \<Rightarrow> dict" where
  "merge_items d [] = d"
| "merge_items d ((k, v) # kvs) = merge_items (dict_setitem d k v) kvs"

fun seq_of :: "pyval \<Rightarrow> pyval list option" where
  "seq_of (PyList xs) = Some xs"
| "seq_of (PyStr s) = Some (map (\<lambda>c. PyStr [c]) s)"
| "seq_of (PyDict d) = Some (map fst d)"
| "seq_of PyNone = None"
| "seq_of (PyBool b) = None"
| "seq_of (PyInt i) = None"
| "seq_of (PyFloat f) = None"

fun merge_from_seq2 :: "dict \<Rightarrow> pyval list \<Rightarrow> exc_class option \<times> dict" where
  "merge_from_seq2 d [] = (None, d)"
| "merge_from_seq2 d (item # items) =
     (case seq_of item of
        None \<Rightarrow> (Some TypeError, d)
      | Some [k, v] \<Rightarrow>
          (case hashable_key k of
             None \<Rightarrow> (Some TypeError, d)
           | Some h \<Rightarrow> merge_from_seq2 (dict_setitem d k v) items)
      | Some other \<Rightarrow> (Some ValueError, d))"

definition dict_update :: "dict \<Rightarrow> pyval \<Rightarrow> exc_class option \<times> dict" where
  "dict_update d arg =
     (case arg of
        PyDict kvs \<Rightarrow> (None, merge_items d kvs)
      | other \<Rightarrow>
          (case seq_of arg of
             None \<Rightarrow> (Some TypeError, d)
           | Some items \<Rightarrow> merge_from_seq2 d items))"

subsection \<open>Equality\<close>

text \<open>
  \<^verbatim>\<open>a == b\<close> as the containers apply it to their elements (identical objects count as
  equal): numbers compare by value across \<^verbatim>\<open>bool\<close>, \<^verbatim>\<open>int\<close> and \<^verbatim>\<open>float\<close>, lists
  element by element, dicts item by item whatever the order. The \<^verbatim>\<open>json\<close> module
  returns one and the same object for every \<^verbatim>\<open>NaN\<close>, so inside a container two of them
  are equal by identity; the operator \<^verbatim>\<open>!=\<close> applied to two floats is not.
\<close>

fun py_eq :: "pyval \<Rightarrow> pyval \<Rightarrow> bool"
  and py_eq_list :: "pyval list \<Rightarrow> pyval list \<Rightarrow> bool"
  and py_eq_items :: "(pyval \<times> pyval) list \<Rightarrow> dict \<Rightarrow> bool" where
  "py_eq (PyList xs) y = (case y of PyList ys \<Rightarrow> py_eq_list xs ys | other \<Rightarrow> False)"
| "py_eq (PyDict a) y =
     (case y of PyDict b \<Rightarrow> length a = length b \<and> py_eq_items a b | other \<Rightarrow> False)"
| "py_eq PyNone y = (hashable_key y = Some HNone)"
| "py_eq (PyBool b) y = (hashable_key y = hashable_key (PyBool b))"
| "py_eq (PyInt i) y = (hashable_key y = hashable_key (PyInt i))"
| "py_eq (PyFloat f) y = (hashable_key y = Some (HNum f))"
| "py_eq (PyStr s) y = (hashable_key y = Some (HStr s))"
| "py_eq_list [] ys = (ys = [])"
| "py_eq_list (x # xs) ys =
     (case ys of [] \<Rightarrow> False | y # ys' \<Rightarrow> py_eq x y \<and> py_eq_list xs ys')"
| "py_eq_items [] b = True"
| "py_eq_items ((k, v) # a) b =
     ((case dict_find b k of None \<Rightarrow> False | Some w \<Rightarrow> py_eq v w) \<and> py_eq_items a b)"

definition py_ne :: "pyval \<Rightarrow> pyval \<Rightarrow> bool" where
  "py_ne a b = (if a = PyFloat NaN \<and> b = PyFloat NaN then True else \<not> py_eq a b)"

section \<open>The module \<^verbatim>\<open>app.py\<close>\<close>

subsection \<open>Module state and effects\<close>

text \<open>
  The log records carry the values that the source interpolates into its messages.
\<close>

datatype level = INFO | WARNING | ERROR

datatype log_msg =
    Fetching_config_from string
  | Successfully_retrieved_config pyval
  | Config_not_modified_304
  | Failed_to_fetch_config int string
  | Error_fetching_config_from_agent exc_class
  | Feature_flag_changed pyval
  | Configuration_updated dict
  | Error_in_config_updater exc_class
  | Initializing_application_configuration
  | Initial_config_loaded dict
  | Could_not_fetch_initial_config
  | Configuration_updater_thread_started

text \<open>
  The module globals that the functions read or write, and the traces of their effects:
  the records handed to \<^verbatim>\<open>logger\<close>, the arguments of the calls of \<^verbatim>\<open>time.sleep\<close>,
  and the number of \<^verbatim>\<open>config_updater\<close> threads started.
\<close>

record state =
  current_config :: dict
  APPCONFIG_APPLICATION :: string
  APPCONFIG_ENVIRONMENT :: string
  APPCONFIG_PROFILE :: string
  logged :: "(level \<times> log_msg) list"
  slept :: "nat list"
  updater_threads :: nat

definition APPCONFIG_AGENT_URL :: string where
  "APPCONFIG_AGENT_URL = ''http://localhost:2772''"

definition default_config :: dict where
  "default_config =
     [(PyStr ''featureXEnabled'', PyBool False),
      (PyStr ''apiUrl'', PyStr ''https://api.example.com'')]"

text \<open>\<^verbatim>\<open>os.getenv(name, default)\<close> over the process environment.\<close>

definition os_getenv :: "(string \<times> string) list \<Rightarrow> string \<Rightarrow> string \<Rightarrow> string" where
  "os_getenv environ name dflt = (case map_of environ name of None \<Rightarrow> dflt | Some v \<Rightarrow> v)"

text \<open>The state once the module-level assignments (lines 17 to 41) have run.\<close>

definition module_state :: "(string \<times> string) list \<Rightarrow> state" where
  "module_state environ =
     \<lparr> current_config = default_config,
       APPCONFIG_APPLICATION = os_getenv environ ''APPCONFIG_APPLICATION'' ''myapp'',
       APPCONFIG_ENVIRONMENT = os_getenv environ ''APPCONFIG_ENVIRONMENT'' ''prod'',
       APPCONFIG_PROFILE = os_getenv environ ''APPCONFIG_PROFILE'' ''app-config'',
       logged = [],
       slept = [],
       updater_threads = 0 \<rparr>"

definition logger_info :: "log_msg \<Rightarrow> state \<Rightarrow> state" where
  "logger_info m s = s\<lparr>logged := logged s @ [(INFO, m)]\<rparr>"

definition logger_warning :: "log_msg \<Rightarrow> state \<Rightarrow> state" where
  "logger_warning m s = s\<lparr>logged := logged s @ [(WARNING, m)]\<rparr>"

definition logger_error :: "log_msg \<Rightarrow> state \<Rightarrow> state" where
  "logger_error m s = s\<lparr>logged := logged s @ [(ERROR, m)]\<rparr>"

definition time_sleep :: "nat \<Rightarrow> state \<Rightarrow> state" where
  "time_sleep secs s = s\<lparr>slept := slept s @ [secs]\<rparr>"

definition thread_start :: "state \<Rightarrow> state" where
  "thread_start s = s\<lparr>updater_threads := Suc (updater_threads s)\<rparr>"

subsection \<open>Statements that may raise\<close>

text \<open>
  A statement takes the state and gives the state it leaves behind together with either
  the exception it raised (\<open>Inl\<close>) or its value (\<open>Inr\<close>). What was written before an
  exception stays written.
\<close>

type_synonym 'a stmt = "state \<Rightarrow> (exc_class + 'a) \<times> state"

definition ret :: "'a \<Rightarrow> 'a stmt" where
  "ret v s = (Inr v, s)"

definition raise :: "exc_class \<Rightarrow> 'a stmt" where
  "raise e s = (Inl e, s)"

definition effect :: "(state \<Rightarrow> state) \<Rightarrow> unit stmt" where
  "effect f s = (Inr (), f s)"

definition seq :: "'a stmt \<Rightarrow> ('a \<Rightarrow> 'b stmt) \<Rightarrow> 'b stmt" where
  "seq m f s = (case m s of (Inl e, s') \<Rightarrow> (Inl e, s') | (Inr v, s') \<Rightarrow> f v s')"

text \<open>\<^verbatim>\<open>try: body except cls as e: handler\<close>.\<close>

definition try_except :: "'a stmt \<Rightarrow> exc_class \<Rightarrow> (exc_class \<Rightarrow> 'a stmt) \<Rightarrow> 'a stmt" where
  "try_except body cls handler s =
     (case body s of
        (Inl e, s') \<Rightarrow> if issubclass e cls then handler e s' else (Inl e, s')
      | (Inr v, s') \<Rightarrow> (Inr v, s'))"

subsection \<open>The HTTP exchange\<close>

text \<open>
  What one call \<^verbatim>\<open>requests.get(url, timeout=5)\<close> does is given by the agent and the
  network: it raises, or it returns a response with a status code, a body text and
  what \<^verbatim>\<open>response.json()\<close> does on that body: it returns the parsed value (\<open>Inr\<close>)
  or raises (\<open>Inl\<close>). On a body the parser rejects, \<^verbatim>\<open>json()\<close> raises
  \<^verbatim>\<open>requests.exceptions.JSONDecodeError\<close>. It wraps that one error only: when the
  parser gives up at one of its limits before it has read the body to the end, with
  \<^verbatim>\<open>RecursionError\<close> on brackets nested too deep or with a plain \<^verbatim>\<open>ValueError\<close> on an
  integer literal of more than 4300 digits, \<^verbatim>\<open>json()\<close> passes that exception on.
\<close>

record response =
  status_code :: int
  text_of :: string
  json_of :: "exc_class + pyval"

datatype http_outcome = Raises exc_class | Returns response

definition requests_get :: "http_outcome \<Rightarrow> response stmt" where
  "requests_get r = (case r of Raises e \<Rightarrow> raise e | Returns resp \<Rightarrow> ret resp)"

definition response_json :: "response \<Rightarrow> pyval stmt" where
  "response_json resp = (case json_of resp of Inl e \<Rightarrow> raise e | Inr v \<Rightarrow> ret v)"

subsection \<open>\<^verbatim>\<open>fetch_config_from_agent\<close>\<close>

definition request_url :: "state \<Rightarrow> string" where
  "request_url s =
     APPCONFIG_AGENT_URL @ ''/applications/'' @ APPCONFIG_APPLICATION s
       @ ''/environments/'' @ APPCONFIG_ENVIRONMENT s
       @ ''/configurations/'' @ APPCONFIG_PROFILE s"

text \<open>
  Lines 43 to 62. The argument is the outcome of the one HTTP exchange the call makes.
  \<^verbatim>\<open>return None\<close> is the value \<open>PyNone\<close>, the same value a body \<^verbatim>\<open>null\<close> parses to.
\<close>

definition fetch_config_from_agent :: "http_outcome \<Rightarrow> pyval stmt" where
  "fetch_config_from_agent r =
     try_except
       (\<lambda>s.
          seq (effect (logger_info (Fetching_config_from (request_url s)))) (\<lambda>_.
          seq (requests_get r) (\<lambda>resp.
            if status_code resp = 200 then
              seq (response_json resp) (\<lambda>config_data.
              seq (effect (logger_info (Successfully_retrieved_config config_data))) (\<lambda>_.
              ret config_data))
            else if status_code resp = 304 then
              seq (effect (logger_info Config_not_modified_304)) (\<lambda>_.
              ret PyNone)
            else
              seq (effect (logger_error
                     (Failed_to_fetch_config (status_code resp) (text_of resp)))) (\<lambda>_.
              ret PyNone))) s)
       RequestException
       (\<lambda>e. seq (effect (logger_error (Error_fetching_config_from_agent e))) (\<lambda>_.
            ret PyNone))"

subsection \<open>\<^verbatim>\<open>config_updater\<close>\<close>

text \<open>\<^verbatim>\<open>current_config.update(arg)\<close> on the module global.\<close>

definition update_current_config :: "pyval \<Rightarrow> unit stmt" where
  "update_current_config arg s =
     (case dict_update (current_config s) arg of
        (None, d) \<Rightarrow> (Inr (), s\<lparr>current_config := d\<rparr>)
      | (Some e, d) \<Rightarrow> (Inl e, s\<lparr>current_config := d\<rparr>))"

text \<open>The body of the \<^verbatim>\<open>try\<close> of one iteration, lines 70 to 79.\<close>

definition config_updater_body :: "http_outcome \<Rightarrow> unit stmt" where
  "config_updater_body r =
     seq (fetch_config_from_agent r) (\<lambda>new_config.
       if truthy new_config then
         (\<lambda>s. let old_config = dict_copy (current_config s) in
            seq (update_current_config new_config) (\<lambda>_.
            seq (\<lambda>s'.
                  (if py_ne (dict_get old_config (PyStr ''featureXEnabled'') PyNone)
                        (dict_get (current_config s') (PyStr ''featureXEnabled'') PyNone)
                   then effect (logger_info (Feature_flag_changed
                          (dict_get (current_config s') (PyStr ''featureXEnabled'') PyNone)))
                   else ret ()) s') (\<lambda>_.
            (\<lambda>s'. effect (logger_info (Configuration_updated (current_config s'))) s'))) s)
       else ret ())"

text \<open>One turn of the \<^verbatim>\<open>while True\<close> loop, lines 69 to 83.\<close>

definition config_updater_iteration :: "http_outcome \<Rightarrow> unit stmt" where
  "config_updater_iteration r =
     seq (try_except (config_updater_body r) Exception
            (\<lambda>e. effect (logger_error (Error_in_config_updater e)))) (\<lambda>_.
     effect (time_sleep 30))"

text \<open>
  The loop has no exit: it runs as long as the process. It is followed here over the
  outcomes of its first fetches, one per iteration. \<open>Inr ()\<close> says that the loop is
  still running after them, \<open>Inl e\<close> that the exception \<open>e\<close> ended it.
\<close>

fun config_updater :: "http_outcome list \<Rightarrow> unit stmt" where
  "config_updater [] = ret ()"
| "config_updater (r # rs) = seq (config_updater_iteration r) (\<lambda>_. config_updater rs)"

subsection \<open>\<^verbatim>\<open>initialize_config\<close>\<close>

text \<open>Lines 173 to 188; \<open>r\<close> is the outcome of the startup fetch.\<close>

definition initialize_config :: "http_outcome \<Rightarrow> unit stmt" where
  "initialize_config r =
     seq (effect (logger_info Initializing_application_configuration)) (\<lambda>_.
     seq (fetch_config_from_agent r) (\<lambda>initial_config.
     seq (if truthy initial_config then
            seq (update_current_config initial_config) (\<lambda>_.
            (\<lambda>s. effect (logger_info (Initial_config_loaded (current_config s))) s))
          else effect (logger_warning Could_not_fetch_initial_config)) (\<lambda>_.
     seq (effect thread_start) (\<lambda>_.
     effect (logger_info Configuration_updater_thread_started)))))"

text \<open>
  The process: the module is imported, which runs \<^verbatim>\<open>initialize_config()\<close> (line 192);
  an exception there ends the import and with it the process. Otherwise the updater
  thread runs its loop.
\<close>

definition process_run :: "(string \<times> string) list \<Rightarrow> http_outcome \<Rightarrow> http_outcome list \<Rightarrow>
    (exc_class + unit) \<times> state" where
  "process_run environ r0 rs =
     (case initialize_config r0 (module_state environ) of
        (Inl e, s) \<Rightarrow> (Inl e, s)
      | (Inr u, s) \<Rightarrow> config_updater rs s)"

subsection \<open>Request handlers\<close>

text \<open>
  What a handler gives back: \<open>JsonResponse payload code\<close> is the response with the
  given status whose body is the JSON text of the object handed to \<^verbatim>\<open>jsonify\<close>. The
  object is kept as it is; the text that Flask writes has the keys of every dict in
  sorted order. \<open>InternalServerError e\<close> is the answer with status 500 that Flask gives
  when the handler raises \<open>e\<close>.

  Sorting compares the keys of a dict with each other. Strings compare with strings
  and numbers with numbers; any other pair raises \<^verbatim>\<open>TypeError\<close>. A dict with at most
  one key is not compared at all.
\<close>

datatype flask_response = JsonResponse pyval int | InternalServerError exc_class

fun all_str :: "pyval list \<Rightarrow> bool" where
  "all_str [] = True"
| "all_str (k # ks) = ((case k of PyStr s \<Rightarrow> True | other \<Rightarrow> False) \<and> all_str ks)"

fun all_num :: "pyval list \<Rightarrow> bool" where
  "all_num [] = True"
| "all_num (k # ks) =
     ((case k of PyBool b \<Rightarrow> True | PyInt i \<Rightarrow> True | PyFloat f \<Rightarrow> True | other \<Rightarrow> False)
      \<and> all_num ks)"

definition keys_sortable :: "pyval list \<Rightarrow> bool" where
  "keys_sortable ks \<longleftrightarrow> length ks \<le> 1 \<or> all_str ks \<or> all_num ks"

fun dumps_sorts :: "pyval \<Rightarrow> bool"
  and dumps_sorts_list :: "pyval list \<Rightarrow> bool"
  and dumps_sorts_items :: "(pyval \<times> pyval) list \<Rightarrow> bool" where
  "dumps_sorts (PyList xs) = dumps_sorts_list xs"
| "dumps_sorts (PyDict d) = (keys_sortable (map fst d) \<and> dumps_sorts_items d)"
| "dumps_sorts PyNone = True"
| "dumps_sorts (PyBool b) = True"
| "dumps_sorts (PyInt i) = True"
| "dumps_sorts (PyFloat f) = True"
| "dumps_sorts (PyStr s) = True"
| "dumps_sorts_list [] = True"
| "dumps_sorts_list (x # xs) = (dumps_sorts x \<and> dumps_sorts_list xs)"
| "dumps_sorts_items [] = True"
| "dumps_sorts_items ((k, v) # d) = (dumps_sorts v \<and> dumps_sorts_items d)"

definition jsonify :: "pyval \<Rightarrow> flask_response" where
  "jsonify payload =
     (if dumps_sorts payload then JsonResponse payload 200 else InternalServerError TypeError)"

text \<open>\<^verbatim>\<open>return jsonify(...), code\<close>.\<close>

definition with_status :: "flask_response \<Rightarrow> int \<Rightarrow> flask_response" where
  "with_status resp code =
     (case resp of
        JsonResponse payload c \<Rightarrow> JsonResponse payload code
      | InternalServerError e \<Rightarrow> InternalServerError e)"

definition mock_user :: "int \<Rightarrow> string \<Rightarrow> string \<Rightarrow> string \<Rightarrow> pyval" where
  "mock_user i name email role =
     PyDict [(PyStr ''id'', PyInt i), (PyStr ''name'', PyStr name),
             (PyStr ''email'', PyStr email), (PyStr ''role'', PyStr role)]"

definition MOCK_USERS :: "pyval list" where
  "MOCK_USERS =
     [mock_user 1 ''Alice Johnson'' ''alice@example.com'' ''admin'',
      mock_user 2 ''Bob Smith'' ''bob@example.com'' ''user'',
      mock_user 3 ''Carol Davis'' ''carol@example.com'' ''user'',
      mock_user 4 ''David Wilson'' ''david@example.com'' ''moderator'',
      mock_user 5 ''Eve Brown'' ''eve@example.com'' ''user'']"

text \<open>The handlers read the module global; \<open>now\<close> is the value of \<^verbatim>\<open>time.time()\<close>.\<close>

definition health :: "pyfloat \<Rightarrow> state \<Rightarrow> flask_response" where
  "health now s =
     jsonify (PyDict
       [(PyStr ''status'', PyStr ''healthy''),
        (PyStr ''timestamp'', PyFloat now),
        (PyStr ''config_loaded'', PyBool (truthy (PyDict (current_config s))))])"


definition list_users :: "pyfloat \<Rightarrow> state \<Rightarrow> flask_response" where
  "list_users now s =
     (if \<not> truthy (dict_get (current_config s) (PyStr ''featureXEnabled'') (PyBool False))
      then with_status
             (jsonify (PyDict
               [(PyStr ''error'', PyStr ''User listing feature is currently disabled''),
                (PyStr ''message'',
                 PyStr ''This feature is controlled by the 'featureXEnabled' flag in AppConfig''),
                (PyStr ''current_flag_value'',
                 dict_get (current_config s) (PyStr ''featureXEnabled'') (PyBool False))]))
             403
      else jsonify (PyDict
             [(PyStr ''users'', PyList MOCK_USERS),
              (PyStr ''total_count'', PyInt (int (length MOCK_USERS))),
              (PyStr ''feature_enabled'', PyBool True),
              (PyStr ''timestamp'', PyFloat now)]))"

subsection \<open>Terms of the specification\<close>

text \<open>
  A failed fetch, in the terms of the specification: a network error or timeout (an
  exception of the \<^verbatim>\<open>requests\<close> library), a status code other than 200 and 304, or
  a 200 response whose body does not parse, whatever \<^verbatim>\<open>json()\<close> raises on it.
\<close>

fun failed_outcome :: "http_outcome \<Rightarrow> bool" where
  "failed_outcome (Raises e) = issubclass e RequestException"
| "failed_outcome (Returns resp) =
     (if status_code resp = 200 then (case json_of resp of Inl e \<Rightarrow> True | Inr v \<Rightarrow> False)
      else status_code resp \<noteq> 304)"


text \<open>The snapshot holds at least the two compiled-in keys.\<close>

definition has_default_keys :: "dict \<Rightarrow> bool" where
  "has_default_keys d \<longleftrightarrow>
     dict_find d (PyStr ''featureXEnabled'') \<noteq> None \<and> dict_find d (PyStr ''apiUrl'') \<noteq> None"

subsection \<open>Sample inputs\<close>

text \<open>Concrete responses, documents and snapshots used in the examples below.\<close>

definition response_304 :: response where
  "response_304 = \<lparr>status_code = 304, text_of = [], json_of = Inl JSONDecodeError\<rparr>"

definition response_500 :: response where
  "response_500 =
     \<lparr>status_code = 500, text_of = ''Internal Server Error'', json_of = Inl JSONDecodeError\<rparr>"






definition pairs_then_number :: pyval where
  "pairs_then_number = PyList [PyList [PyStr ''a'', PyInt 1], PyInt 5]"

definition response_pairs_then_number :: response where
  "response_pairs_then_number =
     \<lparr>status_code = 200, text_of = ''[ [\"a\", 1], 5 ]'', json_of = Inr pairs_then_number\<rparr>"

definition flag_on :: pyval where
  "flag_on = PyDict [(PyStr ''featureXEnabled'', PyBool True)]"

definition response_flag_on :: response where
  "response_flag_on =
     \<lparr>status_code = 200, text_of = ''{\"featureXEnabled\": true}'', json_of = Inr flag_on\<rparr>"

definition snapshot_a1_b2 :: state where
  "snapshot_a1_b2 =
     (module_state [])\<lparr>current_config := [(PyStr ''a'', PyInt 1), (PyStr ''b'', PyInt 2)]\<rparr>"

definition doc_b3 :: "(pyval \<times> pyval) list" where
  "doc_b3 = [(PyStr ''b'', PyInt 3)]"

definition response_b3 :: response where
  "response_b3 = \<lparr>status_code = 200, text_of = ''{\"b\": 3}'', json_of = Inr (PyDict doc_b3)\<rparr>"

section \<open>Properties of the dict operations\<close>

lemma dict_find_setitem:
  "dict_find (dict_setitem d k v) q =
     (if hashable_key k = hashable_key q then Some v else dict_find d q)"
  by (induction d) auto

lemma dict_find_None_iff:
  "dict_find d q = None \<longleftrightarrow> hashable_key q \<notin> set (map (\<lambda>kv. hashable_key (fst kv)) d)"
proof (induction d)
  case Nil
  then show ?case by simp
next
  case (Cons kv d)
  obtain k v where "kv = (k, v)" by (cases kv)
  with Cons show ?case by (cases "hashable_key k = hashable_key q") auto
qed

lemma dict_find_merge_items:
  "distinct (map (\<lambda>kv. hashable_key (fst kv)) kvs) \<Longrightarrow>
   dict_find (merge_items d kvs) q =
     (case dict_find kvs q of Some v \<Rightarrow> Some v | None \<Rightarrow> dict_find d q)"
proof (induction kvs arbitrary: d)
  case Nil
  then show ?case by simp
next
  case (Cons kv kvs)
  obtain k v where kv: "kv = (k, v)" by (cases kv)
  from Cons.prems kv have fresh: "hashable_key k \<notin> set (map (\<lambda>kv. hashable_key (fst kv)) kvs)"
    and dist: "distinct (map (\<lambda>kv. hashable_key (fst kv)) kvs)"
    by simp_all
  have step: "dict_find (merge_items (dict_setitem d k v) kvs) q =
      (case dict_find kvs q of Some w \<Rightarrow> Some w | None \<Rightarrow> dict_find (dict_setitem d k v) q)"
    using Cons.IH [OF dist] .
  show ?case
  proof (cases "hashable_key k = hashable_key q")
    case True
    with fresh have "dict_find kvs q = None"
      by (simp add: dict_find_None_iff)
    with True step kv show ?thesis
      by (simp add: dict_find_setitem)
  next
    case False
    with step kv show ?thesis
      by (simp add: dict_find_setitem split: option.splits)
  qed
qed

lemma has_key_setitem:
  "dict_find d q \<noteq> None \<Longrightarrow> dict_find (dict_setitem d k v) q \<noteq> None"
  by (simp add: dict_find_setitem)

lemma has_key_merge_items:
  "dict_find d q \<noteq> None \<Longrightarrow> dict_find (merge_items d kvs) q \<noteq> None"
  by (induction kvs arbitrary: d) (auto simp: dict_find_setitem)

lemma has_key_merge_from_seq2:
  "dict_find d q \<noteq> None \<Longrightarrow> dict_find (snd (merge_from_seq2 d items)) q \<noteq> None"
proof (induction items arbitrary: d)
  case Nil
  then show ?case by simp
next
  case (Cons item items)
  show ?case
  proof (cases "seq_of item")
    case None
    with Cons.prems show ?thesis by simp
  next
    case (Some xs)
    show ?thesis
    proof (cases "\<exists>k v. xs = [k, v]")
      case True
      then obtain k v where xs: "xs = [k, v]" by blast
      show ?thesis
      proof (cases "hashable_key k")
        case None
        with Some xs Cons.prems show ?thesis by simp
      next
        case (Some h)
        have "dict_find (dict_setitem d k v) q \<noteq> None"
          using Cons.prems by (rule has_key_setitem)
        then have "dict_find (snd (merge_from_seq2 (dict_setitem d k v) items)) q \<noteq> None"
          by (rule Cons.IH)
        with \<open>seq_of item = Some xs\<close> xs Some show ?thesis by simp
      qed
    next
      case False
      with Some Cons.prems show ?thesis
        by (auto split: list.splits)
    qed
  qed
qed

lemma has_key_dict_update:
  "dict_find d q \<noteq> None \<Longrightarrow> dict_find (snd (dict_update d arg)) q \<noteq> None"
  by (cases arg)
     (auto simp: dict_update_def has_key_merge_items has_key_merge_from_seq2
           split: option.splits)

section \<open>Properties of the fetch, the loop and startup\<close>

lemmas stmt_defs = seq_def ret_def raise_def effect_def try_except_def
lemmas log_defs = logger_info_def logger_warning_def logger_error_def

lemma issubclass_Exception: "issubclass e Exception"
  by (cases e) (simp_all add: issubclass_def)

lemma fetch_Raises:
  "fetch_config_from_agent (Raises e) s =
     (if issubclass e RequestException
      then (Inr PyNone, logger_error (Error_fetching_config_from_agent e)
                          (logger_info (Fetching_config_from (request_url s)) s))
      else (Inl e, logger_info (Fetching_config_from (request_url s)) s))"
  by (simp add: fetch_config_from_agent_def stmt_defs requests_get_def)

lemma fetch_Returns:
  "fetch_config_from_agent (Returns resp) s =
     (if status_code resp = 200 then
        (case json_of resp of
           Inl e \<Rightarrow>
             if issubclass e RequestException
             then (Inr PyNone, logger_error (Error_fetching_config_from_agent e)
                                 (logger_info (Fetching_config_from (request_url s)) s))
             else (Inl e, logger_info (Fetching_config_from (request_url s)) s)
         | Inr config_data \<Rightarrow>
             (Inr config_data, logger_info (Successfully_retrieved_config config_data)
                                 (logger_info (Fetching_config_from (request_url s)) s)))
      else if status_code resp = 304 then
        (Inr PyNone, logger_info Config_not_modified_304
                       (logger_info (Fetching_config_from (request_url s)) s))
      else
        (Inr PyNone, logger_error (Failed_to_fetch_config (status_code resp) (text_of resp))
                       (logger_info (Fetching_config_from (request_url s)) s)))"
  by (simp add: fetch_config_from_agent_def stmt_defs requests_get_def response_json_def
        split: sum.splits)

lemma fetch_frame: "\<exists>L. snd (fetch_config_from_agent r s) = s\<lparr>logged := L\<rparr>"
proof (cases r)
  case (Raises e)
  then show ?thesis by (auto simp: fetch_Raises log_defs)
next
  case (Returns resp)
  then show ?thesis by (auto simp: fetch_Returns log_defs split: sum.splits)
qed

lemma fetch_current_config [simp]:
  "current_config (snd (fetch_config_from_agent r s)) = current_config s"
  using fetch_frame [of r s] by (auto simp del: split_paired_Ex)

lemma fetch_slept [simp]: "slept (snd (fetch_config_from_agent r s)) = slept s"
  using fetch_frame [of r s] by (auto simp del: split_paired_Ex)

lemma fetch_updater_threads [simp]:
  "updater_threads (snd (fetch_config_from_agent r s)) = updater_threads s"
  using fetch_frame [of r s] by (auto simp del: split_paired_Ex)

text \<open>The body of an iteration, by the outcome of its fetch.\<close>

lemma body_fetch_raises:
  "fst (fetch_config_from_agent r s) = Inl e \<Longrightarrow>
   config_updater_body r s = (Inl e, snd (fetch_config_from_agent r s))"
  by (cases "fetch_config_from_agent r s") (simp add: config_updater_body_def stmt_defs)

lemma body_falsy:
  "fst (fetch_config_from_agent r s) = Inr v \<Longrightarrow> \<not> truthy v \<Longrightarrow>
   config_updater_body r s = (Inr (), snd (fetch_config_from_agent r s))"
  by (cases "fetch_config_from_agent r s") (simp add: config_updater_body_def stmt_defs)

lemma body_truthy:
  "fst (fetch_config_from_agent r s) = Inr v \<Longrightarrow> truthy v \<Longrightarrow>
   current_config (snd (config_updater_body r s)) = snd (dict_update (current_config s) v)
   \<and> slept (snd (config_updater_body r s)) = slept s
   \<and> updater_threads (snd (config_updater_body r s)) = updater_threads s
   \<and> fst (config_updater_body r s) =
       (case fst (dict_update (current_config s) v) of None \<Rightarrow> Inr () | Some e \<Rightarrow> Inl e)"
proof -
  assume a: "fst (fetch_config_from_agent r s) = Inr v" "truthy v"
  obtain s1 where f: "fetch_config_from_agent r s = (Inr v, s1)"
    using a(1) by (cases "fetch_config_from_agent r s") simp
  have s1: "current_config s1 = current_config s" "slept s1 = slept s"
      "updater_threads s1 = updater_threads s"
    using fetch_current_config [of r s] fetch_slept [of r s] fetch_updater_threads [of r s] f
    by simp_all
  obtain ex d where u: "dict_update (current_config s) v = (ex, d)"
    by (cases "dict_update (current_config s) v")
  show ?thesis
    using f a(2) s1 u
    by (cases ex)
       (simp_all add: config_updater_body_def stmt_defs update_current_config_def log_defs)
qed

lemma body_current_config:
  "current_config (snd (config_updater_body r s)) =
     (case fst (fetch_config_from_agent r s) of
        Inl e \<Rightarrow> current_config s
      | Inr v \<Rightarrow> if truthy v then snd (dict_update (current_config s) v)
                 else current_config s)"
  by (cases "fst (fetch_config_from_agent r s)")
     (auto simp: body_fetch_raises body_falsy body_truthy)

lemma body_slept [simp]: "slept (snd (config_updater_body r s)) = slept s"
proof (cases "fst (fetch_config_from_agent r s)")
  case (Inl e)
  then show ?thesis by (simp add: body_fetch_raises)
next
  case (Inr v)
  then show ?thesis by (cases "truthy v") (simp_all add: body_falsy body_truthy)
qed

lemma body_updater_threads [simp]:
  "updater_threads (snd (config_updater_body r s)) = updater_threads s"
proof (cases "fst (fetch_config_from_agent r s)")
  case (Inl e)
  then show ?thesis by (simp add: body_fetch_raises)
next
  case (Inr v)
  then show ?thesis by (cases "truthy v") (simp_all add: body_falsy body_truthy)
qed

text \<open>One iteration: whatever the body does, the handler leaves the loop running.\<close>

lemma iteration_eq:
  "config_updater_iteration r s =
     (Inr (), time_sleep 30
        (case config_updater_body r s of
           (Inl e, s') \<Rightarrow> logger_error (Error_in_config_updater e) s'
         | (Inr u, s') \<Rightarrow> s'))"
  by (cases "config_updater_body r s")
     (auto simp: config_updater_iteration_def stmt_defs issubclass_Exception split: sum.splits)

lemma iteration_current_config:
  "current_config (snd (config_updater_iteration r s)) =
     current_config (snd (config_updater_body r s))"
  by (cases "config_updater_body r s")
     (auto simp: iteration_eq time_sleep_def log_defs split: sum.splits)

lemma iteration_slept: "slept (snd (config_updater_iteration r s)) = slept s @ [30]"
  using body_slept [of r s]
  by (cases "config_updater_body r s")
     (auto simp: iteration_eq time_sleep_def log_defs split: sum.splits)

lemma iteration_updater_threads:
  "updater_threads (snd (config_updater_iteration r s)) = updater_threads s"
  using body_updater_threads [of r s]
  by (cases "config_updater_body r s")
     (auto simp: iteration_eq time_sleep_def log_defs split: sum.splits)

lemma config_updater_running: "fst (config_updater rs s) = Inr ()"
  by (induction rs arbitrary: s) (simp_all add: ret_def seq_def iteration_eq)

lemma config_updater_Cons:
  "config_updater (r # rs) s = config_updater rs (snd (config_updater_iteration r s))"
  by (simp add: seq_def iteration_eq)

lemma logger_fields [simp]:
  "current_config (logger_info m s) = current_config s"
  "current_config (logger_warning m s) = current_config s"
  "current_config (logger_error m s) = current_config s"
  "updater_threads (logger_info m s) = updater_threads s"
  "updater_threads (logger_warning m s) = updater_threads s"
  "updater_threads (logger_error m s) = updater_threads s"
  "slept (logger_info m s) = slept s"
  "slept (logger_warning m s) = slept s"
  "slept (logger_error m s) = slept s"
  by (simp_all add: log_defs)


lemma fst_fetch_failed:
  "failed_outcome r \<Longrightarrow>
   fst (fetch_config_from_agent r s) = Inr PyNone
   \<or> (\<exists>e. fst (fetch_config_from_agent r s) = Inl e)"
  by (cases r) (auto simp: fetch_Raises fetch_Returns split: sum.splits if_splits)

lemma fst_fetch_Raises:
  "fst (fetch_config_from_agent (Raises e) s) =
     (if issubclass e RequestException then Inr PyNone else Inl e)"
  by (simp add: fetch_Raises)

lemma fst_fetch_indep:
  "fst (fetch_config_from_agent r s) = fst (fetch_config_from_agent r s')"
  by (cases r) (auto simp: fetch_Raises fetch_Returns split: sum.splits)

text \<open>Startup, by the outcome of its fetch.\<close>

lemma init_fetch_raises:
  "fst (fetch_config_from_agent r s) = Inl e \<Longrightarrow>
   fst (initialize_config r s) = Inl e
   \<and> current_config (snd (initialize_config r s)) = current_config s
   \<and> updater_threads (snd (initialize_config r s)) = updater_threads s"
proof -
  let ?s0 = "logger_info Initializing_application_configuration s"
  assume "fst (fetch_config_from_agent r s) = Inl e"
  then have a: "fst (fetch_config_from_agent r ?s0) = Inl e"
    using fst_fetch_indep [of r s ?s0] by simp
  have c: "current_config (snd (fetch_config_from_agent r ?s0)) = current_config s"
    "updater_threads (snd (fetch_config_from_agent r ?s0)) = updater_threads s"
    by simp_all
  from a c show ?thesis
    by (cases "fetch_config_from_agent r ?s0") (simp add: initialize_config_def stmt_defs)
qed

lemma init_falsy:
  "fst (fetch_config_from_agent r s) = Inr v \<Longrightarrow> \<not> truthy v \<Longrightarrow>
   fst (initialize_config r s) = Inr ()
   \<and> current_config (snd (initialize_config r s)) = current_config s
   \<and> updater_threads (snd (initialize_config r s)) = Suc (updater_threads s)"
proof -
  let ?s0 = "logger_info Initializing_application_configuration s"
  assume "fst (fetch_config_from_agent r s) = Inr v" and t: "\<not> truthy v"
  then have a: "fst (fetch_config_from_agent r ?s0) = Inr v"
    using fst_fetch_indep [of r s ?s0] by simp
  have c: "current_config (snd (fetch_config_from_agent r ?s0)) = current_config s"
    "updater_threads (snd (fetch_config_from_agent r ?s0)) = updater_threads s"
    by simp_all
  from a c t show ?thesis
    by (cases "fetch_config_from_agent r ?s0")
       (simp add: initialize_config_def stmt_defs thread_start_def)
qed

lemma init_truthy:
  "fst (fetch_config_from_agent r s) = Inr v \<Longrightarrow> truthy v \<Longrightarrow>
   fst (initialize_config r s) =
     (case fst (dict_update (current_config s) v) of None \<Rightarrow> Inr () | Some e \<Rightarrow> Inl e)
   \<and> current_config (snd (initialize_config r s)) = snd (dict_update (current_config s) v)
   \<and> updater_threads (snd (initialize_config r s)) =
       (case fst (dict_update (current_config s) v) of
          None \<Rightarrow> Suc (updater_threads s) | Some e \<Rightarrow> updater_threads s)"
proof -
  let ?s0 = "logger_info Initializing_application_configuration s"
  assume "fst (fetch_config_from_agent r s) = Inr v" and t: "truthy v"
  then have a: "fst (fetch_config_from_agent r ?s0) = Inr v"
    using fst_fetch_indep [of r s ?s0] by simp
  obtain s1 where f: "fetch_config_from_agent r ?s0 = (Inr v, s1)"
    using a by (cases "fetch_config_from_agent r ?s0") simp
  have c: "current_config s1 = current_config s" "updater_threads s1 = updater_threads s"
    using fetch_current_config [of r ?s0] fetch_updater_threads [of r ?s0] f
    by simp_all
  obtain ex d where u: "dict_update (current_config s) v = (ex, d)"
    by (cases "dict_update (current_config s) v")
  show ?thesis
    using f t c u
    by (cases ex)
       (simp_all add: initialize_config_def stmt_defs update_current_config_def
          thread_start_def)
qed

lemma init_current_config:
  "current_config (snd (initialize_config r s)) =
     (case fst (fetch_config_from_agent r s) of
        Inl e \<Rightarrow> current_config s
      | Inr v \<Rightarrow> if truthy v then snd (dict_update (current_config s) v)
                 else current_config s)"
  by (cases "fst (fetch_config_from_agent r s)")
     (auto simp: init_fetch_raises init_falsy init_truthy)

text \<open>Keys are never removed.\<close>

lemma has_default_keys_update:
  "has_default_keys d \<Longrightarrow> has_default_keys (snd (dict_update d arg))"
  by (simp add: has_default_keys_def has_key_dict_update)

lemma has_default_keys_iteration:
  "has_default_keys (current_config s) \<Longrightarrow>
   has_default_keys (current_config (snd (config_updater_iteration r s)))"
  by (simp add: iteration_current_config body_current_config has_default_keys_update
        split: sum.splits)

lemma has_default_keys_init:
  "has_default_keys (current_config s) \<Longrightarrow>
   has_default_keys (current_config (snd (initialize_config r s)))"
  by (simp add: init_current_config has_default_keys_update split: sum.splits)

lemma has_default_keys_loop:
  "has_default_keys (current_config s) \<Longrightarrow>
   has_default_keys (current_config (snd (config_updater rs s)))"
proof (induction rs arbitrary: s)
  case Nil
  then show ?case by (simp add: ret_def)
next
  case (Cons r rs)
  then show ?case
    by (simp only: config_updater_Cons has_default_keys_iteration)
qed

lemma has_default_keys_module_state: "has_default_keys (current_config (module_state environ))"
  by (simp add: has_default_keys_def module_state_def default_config_def)

lemma has_default_keys_process_run:
  "has_default_keys (current_config (snd (process_run environ r0 rs)))"
proof -
  let ?i = "initialize_config r0 (module_state environ)"
  have i: "has_default_keys (current_config (snd ?i))"
    by (rule has_default_keys_init) (rule has_default_keys_module_state)
  show ?thesis
  proof (cases "fst ?i")
    case (Inl e)
    with i show ?thesis
      by (cases ?i) (simp add: process_run_def)
  next
    case (Inr u)
    have "has_default_keys (current_config (snd (config_updater rs (snd ?i))))"
      using i by (rule has_default_keys_loop)
    with Inr show ?thesis
      by (cases ?i) (simp add: process_run_def)
  qed
qed

section \<open>The claims\<close>

subsection \<open>C1: the merge is partial\<close>

text \<open>
  C1. Let the fetch of one loop iteration, or of startup, return status 200 with a JSON
  object \<open>D\<close> (a dict, whose keys are pairwise different). Then the iteration, and
  startup, complete without an exception, and in the snapshot they leave every key of
  \<open>D\<close> has the value \<open>D\<close> gives it and every other key has the value it had before.
  An empty object is falsy and skips the merge, which leaves the same snapshot.
\<close>

theorem merge_is_partial:
  assumes "status_code resp = 200"
    and "json_of resp = Inr (PyDict D)"
    and "distinct (map (\<lambda>kv. hashable_key (fst kv)) D)"
  shows "fst (config_updater_iteration (Returns resp) s) = Inr ()
    \<and> dict_find (current_config (snd (config_updater_iteration (Returns resp) s))) k =
        (case dict_find D k of Some v \<Rightarrow> Some v | None \<Rightarrow> dict_find (current_config s) k)
    \<and> fst (initialize_config (Returns resp) s) = Inr ()
    \<and> dict_find (current_config (snd (initialize_config (Returns resp) s))) k =
        (case dict_find D k of Some v \<Rightarrow> Some v | None \<Rightarrow> dict_find (current_config s) k)"
proof -
  have f: "fst (fetch_config_from_agent (Returns resp) s) = Inr (PyDict D)"
    using assms(1,2) by (simp add: fetch_Returns)
  have u: "dict_update (current_config s) (PyDict D) = (None, merge_items (current_config s) D)"
    by (simp add: dict_update_def)
  have m: "dict_find (merge_items (current_config s) D) k =
      (case dict_find D k of Some v \<Rightarrow> Some v | None \<Rightarrow> dict_find (current_config s) k)"
    using assms(3) by (rule dict_find_merge_items)
  show ?thesis
  proof (cases "D = []")
    case True
    then have "\<not> truthy (PyDict D)" by simp
    with f have "current_config (snd (config_updater_iteration (Returns resp) s)) = current_config s"
      and "fst (initialize_config (Returns resp) s) = Inr ()"
      and "current_config (snd (initialize_config (Returns resp) s)) = current_config s"
      by (simp_all add: iteration_current_config body_falsy init_falsy)
    with True show ?thesis by (simp add: iteration_eq)
  next
    case False
    then have t: "truthy (PyDict D)" by simp
    have "current_config (snd (config_updater_iteration (Returns resp) s)) =
        merge_items (current_config s) D"
      using body_truthy [OF f t] u by (simp add: iteration_current_config)
    moreover have "fst (initialize_config (Returns resp) s) = Inr ()"
      and "current_config (snd (initialize_config (Returns resp) s)) =
        merge_items (current_config s) D"
      using init_truthy [OF f t] u by simp_all
    ultimately show ?thesis using m by (simp add: iteration_eq)
  qed
qed

text \<open>
  The example of the specification: merging \<^verbatim>\<open>{b: 3}\<close> into \<^verbatim>\<open>{a: 1, b: 2}\<close>.
\<close>

theorem merge_is_partial_witness:
  "dict_find (current_config (snd (config_updater_iteration
       (Returns response_b3) snapshot_a1_b2))) (PyStr ''b'') = Some (PyInt 3)
   \<and> dict_find (current_config (snd (config_updater_iteration
       (Returns response_b3) snapshot_a1_b2))) (PyStr ''a'') = Some (PyInt 1)
   \<and> dict_find (current_config (snd (initialize_config
       (Returns response_b3) snapshot_a1_b2))) (PyStr ''b'') = Some (PyInt 3)
   \<and> dict_find (current_config (snd (initialize_config
       (Returns response_b3) snapshot_a1_b2))) (PyStr ''a'') = Some (PyInt 1)"
proof -
  have h1: "status_code response_b3 = 200"
    and h2: "json_of response_b3 = Inr (PyDict doc_b3)"
    by (simp_all add: response_b3_def)
  have h3: "distinct (map (\<lambda>kv. hashable_key (fst kv)) doc_b3)"
    by (simp add: doc_b3_def)
  have d: "dict_find doc_b3 (PyStr ''b'') = Some (PyInt 3)" "dict_find doc_b3 (PyStr ''a'') = None"
    "dict_find (current_config snapshot_a1_b2) (PyStr ''a'') = Some (PyInt 1)"
    by (simp_all add: doc_b3_def snapshot_a1_b2_def)
  show ?thesis
    using merge_is_partial [OF h1 h2 h3, of snapshot_a1_b2 "PyStr ''b''"]
      merge_is_partial [OF h1 h2 h3, of snapshot_a1_b2 "PyStr ''a''"]
    by (simp add: d)
qed

text \<open>
  The same example as the whole snapshot: \<^verbatim>\<open>{a: 1, b: 3}\<close>, in this order.
\<close>

lemma merge_b3_into_a1_b2:
  "current_config (snd (config_updater_iteration
       (Returns response_b3) snapshot_a1_b2))
     = [(PyStr ''a'', PyInt 1), (PyStr ''b'', PyInt 3)]
   \<and> current_config (snd (initialize_config
       (Returns response_b3) snapshot_a1_b2))
     = [(PyStr ''a'', PyInt 1), (PyStr ''b'', PyInt 3)]"
proof -
  have f: "fst (fetch_config_from_agent (Returns response_b3) snapshot_a1_b2)
      = Inr (PyDict doc_b3)"
    by (simp add: fetch_Returns response_b3_def)
  have t: "truthy (PyDict doc_b3)"
    by (simp add: doc_b3_def)
  have u: "snd (dict_update (current_config snapshot_a1_b2) (PyDict doc_b3))
      = [(PyStr ''a'', PyInt 1), (PyStr ''b'', PyInt 3)]"
    by (simp add: dict_update_def doc_b3_def snapshot_a1_b2_def)
  show ?thesis
    using body_truthy [OF f t] init_truthy [OF f t] u
    by (simp add: iteration_current_config)
qed

subsection \<open>C2: the outcomes of a fetch\<close>

text \<open>
  C2, as stated, asks that the caller can tell an unchanged configuration (304) from a
  failure (any other status). The function returns \<^verbatim>\<open>None\<close> for both.
\<close>

theorem unchanged_and_failed_return_the_same:
  "fst (fetch_config_from_agent (Returns response_304) (module_state [])) = Inr PyNone
   \<and> fst (fetch_config_from_agent (Returns response_500) (module_state [])) = Inr PyNone"
  by (simp add: fetch_Returns response_304_def response_500_def)

text \<open>
  C2, amended. A 200 response with a body that parses returns the parsed document and
  logs it at level INFO. A 304 response returns \<^verbatim>\<open>None\<close> and logs "not modified" at
  level INFO. Every other status returns \<^verbatim>\<open>None\<close> as well and logs the status code
  and the whole body text at level ERROR. The return value alone separates neither
  304 from a failure nor either of them from a 200 response whose body is \<^verbatim>\<open>null\<close>;
  only the log record differs.
\<close>

theorem fetch_by_status:
  "(status_code resp = 200 \<and> json_of resp = Inr doc \<longrightarrow>
      fetch_config_from_agent (Returns resp) s =
        (Inr doc, logger_info (Successfully_retrieved_config doc)
                    (logger_info (Fetching_config_from (request_url s)) s)))
   \<and> (status_code resp = 304 \<longrightarrow>
      fetch_config_from_agent (Returns resp) s =
        (Inr PyNone, logger_info Config_not_modified_304
                       (logger_info (Fetching_config_from (request_url s)) s)))
   \<and> (status_code resp \<noteq> 200 \<and> status_code resp \<noteq> 304 \<longrightarrow>
      fetch_config_from_agent (Returns resp) s =
        (Inr PyNone, logger_error (Failed_to_fetch_config (status_code resp) (text_of resp))
                       (logger_info (Fetching_config_from (request_url s)) s)))"
  by (simp add: fetch_Returns)

theorem fetch_by_status_witness:
  "fst (fetch_config_from_agent (Returns response_flag_on) (module_state [])) = Inr flag_on
   \<and> last (logged (snd (fetch_config_from_agent (Returns response_304) (module_state []))))
       = (INFO, Config_not_modified_304)
   \<and> last (logged (snd (fetch_config_from_agent (Returns response_500) (module_state []))))
       = (ERROR, Failed_to_fetch_config 500 ''Internal Server Error'')"
  using fetch_by_status [of response_flag_on flag_on "module_state []"]
    fetch_by_status [of response_304 flag_on "module_state []"]
    fetch_by_status [of response_500 flag_on "module_state []"]
  by (simp add: response_flag_on_def response_304_def response_500_def log_defs)

subsection \<open>C3: a failed fetch changes nothing\<close>

text \<open>
  C3, as stated, covers any unexpected exception inside the iteration body. The merge
  is inside that body: a 200 response whose document is a JSON array of the pair
  \<^verbatim>\<open>["a", 1]\<close> and the number 5 makes \<^verbatim>\<open>update\<close> set the key \<^verbatim>\<open>a\<close> and then raise
  \<^verbatim>\<open>TypeError\<close> at the second element. The exception is caught, and the snapshot has changed.
\<close>

theorem merge_exception_leaves_partial_update:
  "fst (config_updater_body (Returns response_pairs_then_number) (module_state []))
     = Inl TypeError
   \<and> current_config (snd (config_updater_iteration (Returns response_pairs_then_number)
        (module_state [])))
     = default_config @ [(PyStr ''a'', PyInt 1)]
   \<and> current_config (snd (config_updater_iteration (Returns response_pairs_then_number)
        (module_state [])))
     \<noteq> current_config (module_state [])"
proof -
  have f: "fst (fetch_config_from_agent (Returns response_pairs_then_number) (module_state []))
      = Inr pairs_then_number"
    by (simp add: fetch_Returns response_pairs_then_number_def)
  have t: "truthy pairs_then_number"
    by (simp add: pairs_then_number_def)
  have u: "dict_update (current_config (module_state [])) pairs_then_number
      = (Some TypeError, default_config @ [(PyStr ''a'', PyInt 1)])"
    by (simp add: dict_update_def pairs_then_number_def module_state_def default_config_def)
  show ?thesis
    using body_truthy [OF f t] u
    by (simp add: iteration_current_config) (simp add: module_state_def)
qed

text \<open>
  C3, amended. When the fetch fails (a transport error or timeout, a status other than
  200 and 304, a 200 body that does not parse) or raises any exception whatsoever, the
  iteration ends normally, the snapshot is exactly what it was, and the loop sleeps 30
  seconds and goes on with the next iteration. Moreover every iteration, whatever its
  fetch returned (\<open>r'\<close>) and also when the merge raises, ends normally after the same
  sleep, and the loop is still running after it.
\<close>

theorem failed_fetch_is_noop:
  assumes "failed_outcome r \<or> r = Raises e"
  shows "fst (config_updater_iteration r s) = Inr ()
    \<and> current_config (snd (config_updater_iteration r s)) = current_config s
    \<and> slept (snd (config_updater_iteration r s)) = slept s @ [30]
    \<and> config_updater (r # rs) s = config_updater rs (snd (config_updater_iteration r s))
    \<and> fst (config_updater_iteration r' s) = Inr ()
    \<and> slept (snd (config_updater_iteration r' s)) = slept s @ [30]
    \<and> config_updater (r' # rs) s = config_updater rs (snd (config_updater_iteration r' s))
    \<and> fst (config_updater (r' # rs) s) = Inr ()"
proof -
  have "current_config (snd (config_updater_body r s)) = current_config s"
  proof (cases "failed_outcome r")
    case True
    then have "fst (fetch_config_from_agent r s) = Inr PyNone
        \<or> (\<exists>x. fst (fetch_config_from_agent r s) = Inl x)"
      by (rule fst_fetch_failed)
    then show ?thesis
      by (auto simp: body_current_config)
  next
    case False
    with assms have "r = Raises e" by simp
    then show ?thesis
      by (simp add: body_current_config fst_fetch_Raises)
  qed
  then have "current_config (snd (config_updater_iteration r s)) = current_config s"
    by (simp add: iteration_current_config)
  moreover have "fst (config_updater_iteration r s) = Inr ()"
    and "fst (config_updater_iteration r' s) = Inr ()"
    by (simp_all add: iteration_eq)
  ultimately show ?thesis
    by (simp only: iteration_slept config_updater_Cons config_updater_running simp_thms)
qed

theorem failed_fetch_is_noop_witness:
  "current_config (snd (config_updater_iteration (Returns response_500) (module_state [])))
     = default_config
   \<and> current_config (snd (config_updater_iteration (Raises TypeError) (module_state [])))
     = default_config
   \<and> slept (snd (config_updater_iteration (Raises TypeError) (module_state []))) = [30]
   \<and> fst (config_updater [Returns response_pairs_then_number, Raises Timeout]
        (module_state [])) = Inr ()"
proof -
  have h1: "failed_outcome (Returns response_500) \<or> Returns response_500 = Raises TypeError"
    by (simp add: response_500_def)
  have h2: "failed_outcome (Raises TypeError) \<or> Raises TypeError = Raises TypeError"
    by simp
  note a = failed_fetch_is_noop [OF h1, of "module_state []" "[Raises Timeout]"
      "Returns response_pairs_then_number"]
  note b = failed_fetch_is_noop [OF h2, of "module_state []" "[]" "Raises Timeout"]
  have ms: "current_config (module_state []) = default_config" "slept (module_state []) = []"
    by (simp_all add: module_state_def)
  show ?thesis
    using a b unfolding ms append_Nil by blast
qed

subsection \<open>C4: the default keys are always there\<close>

text \<open>
  C4. The snapshot holds the keys \<^verbatim>\<open>featureXEnabled\<close> and \<^verbatim>\<open>apiUrl\<close> when the module
  has been loaded, after startup whatever the startup fetch gave (also when startup
  raised), and after any number of loop iterations whatever their fetches gave.
\<close>

theorem default_keys_always_present:
  "has_default_keys (current_config (module_state environ))
   \<and> has_default_keys (current_config (snd (initialize_config r0 (module_state environ))))
   \<and> has_default_keys (current_config (snd (process_run environ r0 rs)))"
  by (simp add: has_default_keys_module_state has_default_keys_init
        has_default_keys_process_run)

subsection \<open>C5: defaults when the startup fetch fails\<close>




subsection \<open>C7: the feature gate\<close>

text \<open>
  C7. While the snapshot maps \<^verbatim>\<open>featureXEnabled\<close> to \<^verbatim>\<open>False\<close>, \<^verbatim>\<open>list_users\<close> answers 403
  with the denial. Once an iteration has merged a document that maps the key to
  \<^verbatim>\<open>True\<close>, \<^verbatim>\<open>list_users\<close> on the state of the same process answers 200 with the five
  users.
\<close>

theorem gate_follows_flag:
  assumes "dict_find (current_config s) (PyStr ''featureXEnabled'') = Some (PyBool False)"
    and "status_code resp = 200"
    and "json_of resp = Inr (PyDict D)"
    and "distinct (map (\<lambda>kv. hashable_key (fst kv)) D)"
    and "dict_find D (PyStr ''featureXEnabled'') = Some (PyBool True)"
  shows "list_users now s =
      JsonResponse (PyDict
        [(PyStr ''error'', PyStr ''User listing feature is currently disabled''),
         (PyStr ''message'',
          PyStr ''This feature is controlled by the 'featureXEnabled' flag in AppConfig''),
         (PyStr ''current_flag_value'', PyBool False)]) 403
    \<and> fst (config_updater_iteration (Returns resp) s) = Inr ()
    \<and> list_users now' (snd (config_updater_iteration (Returns resp) s)) =
      JsonResponse (PyDict
        [(PyStr ''users'', PyList MOCK_USERS),
         (PyStr ''total_count'', PyInt 5),
         (PyStr ''feature_enabled'', PyBool True),
         (PyStr ''timestamp'', PyFloat now')]) 200"
proof -
  let ?s' = "snd (config_updater_iteration (Returns resp) s)"
  have f: "fst (fetch_config_from_agent (Returns resp) s) = Inr (PyDict D)"
    using assms(2,3) by (simp add: fetch_Returns)
  have t: "truthy (PyDict D)"
    using assms(5) by (cases D) simp_all
  have u: "dict_update (current_config s) (PyDict D) = (None, merge_items (current_config s) D)"
    by (simp add: dict_update_def)
  have "current_config ?s' = merge_items (current_config s) D"
    using body_truthy [OF f t] u by (simp add: iteration_current_config)
  then have "dict_find (current_config ?s') (PyStr ''featureXEnabled'') = Some (PyBool True)"
    using dict_find_merge_items [OF assms(4), of "current_config s" "PyStr ''featureXEnabled''"]
      assms(5)
    by simp
  then have after: "dict_get (current_config ?s') (PyStr ''featureXEnabled'') (PyBool False)
      = PyBool True"
    by (simp add: dict_get_def)
  have before: "dict_get (current_config s) (PyStr ''featureXEnabled'') (PyBool False)
      = PyBool False"
    using assms(1) by (simp add: dict_get_def)
  have len: "int (length MOCK_USERS) = 5"
    by (simp add: MOCK_USERS_def)
  have users: "dumps_sorts_list MOCK_USERS"
    by (simp add: MOCK_USERS_def mock_user_def keys_sortable_def)
  have "list_users now' ?s' =
      JsonResponse (PyDict
        [(PyStr ''users'', PyList MOCK_USERS),
         (PyStr ''total_count'', PyInt 5),
         (PyStr ''feature_enabled'', PyBool True),
         (PyStr ''timestamp'', PyFloat now')]) 200"
    unfolding list_users_def after len by (simp add: jsonify_def keys_sortable_def users)
  moreover have "list_users now s =
      JsonResponse (PyDict
        [(PyStr ''error'', PyStr ''User listing feature is currently disabled''),
         (PyStr ''message'',
          PyStr ''This feature is controlled by the 'featureXEnabled' flag in AppConfig''),
         (PyStr ''current_flag_value'', PyBool False)]) 403"
    unfolding list_users_def before by (simp add: jsonify_def with_status_def keys_sortable_def)
  moreover have "fst (config_updater_iteration (Returns resp) s) = Inr ()"
    by (simp add: iteration_eq)
  ultimately show ?thesis by blast
qed

theorem gate_follows_flag_witness:
  "(case list_users (Finite 0) (module_state []) of
      JsonResponse payload code \<Rightarrow> code | InternalServerError e \<Rightarrow> 500) = 403
   \<and> (case list_users (Finite 1)
          (snd (config_updater_iteration (Returns response_flag_on) (module_state [])))
        of JsonResponse payload code \<Rightarrow> code | InternalServerError e \<Rightarrow> 500) = 200"
proof -
  have h1: "dict_find (current_config (module_state [])) (PyStr ''featureXEnabled'')
      = Some (PyBool False)"
    by (simp add: module_state_def default_config_def)
  have h2: "status_code response_flag_on = 200"
    and h3: "json_of response_flag_on = Inr (PyDict [(PyStr ''featureXEnabled'', PyBool True)])"
    by (simp_all add: response_flag_on_def flag_on_def)
  have h4: "distinct (map (\<lambda>kv. hashable_key (fst kv)) [(PyStr ''featureXEnabled'', PyBool True)])"
    by simp
  have h5: "dict_find [(PyStr ''featureXEnabled'', PyBool True)] (PyStr ''featureXEnabled'')
      = Some (PyBool True)"
    by simp
  show ?thesis
    using gate_follows_flag [OF h1 h2 h3 h4 h5, of "Finite 0" "Finite 1"]
    by simp
qed

subsection \<open>C8: a 200 response whose body is not JSON\<close>




subsection \<open>C10: the health endpoint\<close>

text \<open>
  C10. On the freshly loaded module, and after startup and any number of loop
  iterations whatever their fetches gave, \<^verbatim>\<open>health\<close> answers 200 with status
  \<^verbatim>\<open>healthy\<close> and \<^verbatim>\<open>config_loaded\<close> true.
\<close>

theorem health_reports_config_loaded:
  "health now (module_state environ) =
     JsonResponse (PyDict
       [(PyStr ''status'', PyStr ''healthy''),
        (PyStr ''timestamp'', PyFloat now),
        (PyStr ''config_loaded'', PyBool True)]) 200
   \<and> health now (snd (process_run environ r0 rs)) =
     JsonResponse (PyDict
       [(PyStr ''status'', PyStr ''healthy''),
        (PyStr ''timestamp'', PyFloat now),
        (PyStr ''config_loaded'', PyBool True)]) 200"
proof -
  have ne: "\<And>d. has_default_keys d \<Longrightarrow> truthy (PyDict d)"
    by (auto simp: has_default_keys_def)
  have "truthy (PyDict (current_config (module_state environ)))"
    by (rule ne) (rule has_default_keys_module_state)
  moreover have "truthy (PyDict (current_config (snd (process_run environ r0 rs))))"
    by (rule ne) (rule has_default_keys_process_run)
  ultimately show ?thesis
    by (simp add: health_def jsonify_def keys_sortable_def)
qed

end
